theory Spec2Isabelle
  imports Complex_Main "HOL-Library.Sublist"
begin

section \<open>Python values and exceptions\<close>

text \<open>
  Both deployments of the iris classifier are Python programs.  The values they handle come
  out of a JSON parser, so a Python value is modelled by the JSON value it was parsed from:
  \<open>None\<close>, a bool, an int, a float, a str, a list or a dict.  A dict is given by its items
  (the keys of a parsed dict are distinct); a float is idealised as a real number, and each
  character of a string stands for one code point.
\<close>

datatype json =
    JNull
  | JBool bool
  | JInt int
  | JFloat real
  | JStr string
  | JArr "json list"
  | JObj "(string \<times> json) list"

text \<open>
  An exception is an instance of \<open>Exception\<close> with the two attributes the handlers read:
  \<open>type(e).__name__\<close> and \<open>str(e)\<close>.  Exits that derive from \<open>BaseException\<close> only
  (\<open>KeyboardInterrupt\<close>, \<open>SystemExit\<close>) are not errors of request handling and are not
  modelled.
\<close>

datatype py_exn = Exn (exn_type: string) (exn_msg: string)

fun type_name :: "json \<Rightarrow> string" where
  "type_name JNull = ''NoneType''"
| "type_name (JBool _) = ''bool''"
| "type_name (JInt _) = ''int''"
| "type_name (JFloat _) = ''float''"
| "type_name (JStr _) = ''str''"
| "type_name (JArr _) = ''list''"
| "type_name (JObj _) = ''dict''"

text \<open>Truth value of a Python object, as \<open>not x\<close> tests it.\<close>

fun truthy :: "json \<Rightarrow> bool" where
  "truthy JNull = False"
| "truthy (JBool b) = b"
| "truthy (JInt i) = (i \<noteq> 0)"
| "truthy (JFloat r) = (r \<noteq> 0)"
| "truthy (JStr s) = (s \<noteq> [])"
| "truthy (JArr xs) = (xs \<noteq> [])"
| "truthy (JObj kvs) = (kvs \<noteq> [])"

text \<open>
  \<open>k in x\<close> for a string \<open>k\<close>: key membership in a dict, element membership in a list,
  substring test in a str, \<open>TypeError\<close> on everything else.
\<close>

fun py_contains :: "json \<Rightarrow> string \<Rightarrow> py_exn + bool" where
  "py_contains (JObj kvs) k = Inr (map_of kvs k \<noteq> None)"
| "py_contains (JArr xs) k = Inr (JStr k \<in> set xs)"
| "py_contains (JStr s) k = Inr (sublist k s)"
| "py_contains v k =
     Inl (Exn ''TypeError'' (''argument of type '' @ [CHR 0x27] @ type_name v @ [CHR 0x27] @ '' is not iterable''))"

text \<open>\<open>x[k]\<close> for a string \<open>k\<close>: only a dict can be subscripted by a string.\<close>

fun py_getitem :: "json \<Rightarrow> string \<Rightarrow> py_exn + json" where
  "py_getitem (JObj kvs) k =
     (case map_of kvs k of
        None \<Rightarrow> Inl (Exn ''KeyError'' ([CHR 0x27] @ k @ [CHR 0x27]))
      | Some v \<Rightarrow> Inr v)"
| "py_getitem (JArr xs) k =
     Inl (Exn ''TypeError'' ''list indices must be integers or slices, not str'')"
| "py_getitem (JStr s) k =
     Inl (Exn ''TypeError'' (''string indices must be integers, not '' @ [CHR 0x27] @ ''str'' @ [CHR 0x27]))"
| "py_getitem v k =
     Inl (Exn ''TypeError'' ([CHR 0x27] @ type_name v @ [CHR 0x27] @ '' object is not subscriptable''))"

text \<open>\<open>len(x)\<close>: defined on list, str and dict, \<open>TypeError\<close> on everything else.\<close>

fun py_len :: "json \<Rightarrow> py_exn + int" where
  "py_len (JArr xs) = Inr (int (length xs))"
| "py_len (JStr s) = Inr (int (length s))"
| "py_len (JObj kvs) = Inr (int (length (remdups (map fst kvs))))"
| "py_len v =
     Inl (Exn ''TypeError'' (''object of type '' @ [CHR 0x27] @ type_name v @ [CHR 0x27] @ '' has no len()''))"

text \<open>
  \<open>xs[i]\<close> for an integer \<open>i\<close>: an index below zero counts from the end of the list, and an
  index outside \<open>-len(xs) .. len(xs) - 1\<close> raises \<open>IndexError\<close>.
\<close>

definition py_index :: "'a list \<Rightarrow> int \<Rightarrow> py_exn + 'a" where
  "py_index xs i =
     (if 0 \<le> i \<and> i < int (length xs) then Inr (xs ! nat i)
      else if i < 0 \<and> - int (length xs) \<le> i then Inr (xs ! nat (int (length xs) + i))
      else Inl (Exn ''IndexError'' ''list index out of range''))"

section \<open>The classifier and the effects of a request\<close>

text \<open>
  The classifier is the object unpickled from \<open>model.pkl\<close>; the programs use two of its
  methods, each on the one-row array built from the features:
  \<^item> \<open>clf_predict c features\<close> is the outcome of
    \<open>int(c.predict(np.array([features]))[0])\<close>,
  \<^item> \<open>clf_predict_proba c features\<close> is the outcome of
    \<open>c.predict_proba(np.array([features]))[0].tolist()\<close>.
  Both are opaque: any of the calls may raise, and nothing is known about the values.  A
  classifier is not changed by a call, so each of the two is a function of the features.
\<close>

record classifier =
  clf_predict :: "json \<Rightarrow> py_exn + int"
  clf_predict_proba :: "json \<Rightarrow> py_exn + real list"

text \<open>
  What a request does besides answering is recorded as a trace of the calls it makes:
  a call of \<open>load_model\<close>, a call of \<open>joblib.load\<close>, and the two calls of the classifier
  with the value they are given.
\<close>

datatype event =
    Call_load_model
  | Joblib_load
  | Clf_predict json
  | Clf_predict_proba json

definition class_names :: "string list" where
  "class_names = [''setosa'', ''versicolor'', ''virginica'']"

section \<open>The serverless deployment: main.py\<close>

text \<open>The module's one global: the cached model, \<open>None\<close> until the first load.\<close>

record globals =
  model :: "classifier option"

text \<open>
  \<open>load_model\<close>, with the outcome of \<open>joblib.load(model_path)\<close> as the parameter
  \<open>artifact\<close> (the file may be missing or corrupt).  Returns the result, the globals after
  the call and the trace.
\<close>

definition load_model ::
  "(py_exn + classifier) \<Rightarrow> globals \<Rightarrow> (py_exn + classifier) \<times> globals \<times> event list" where
  "load_model artifact g =
     (case model g of
        None \<Rightarrow>
          (case artifact of
             Inl e \<Rightarrow> (Inl e, g, [Joblib_load])
           | Inr c \<Rightarrow> (Inr c, g\<lparr>model := Some c\<rparr>, [Joblib_load]))
      | Some c \<Rightarrow> (Inr c, g, []))"

text \<open>
  The request as the handler reads it: \<open>request.method\<close> and the value of
  \<open>request.get_json(silent=True)\<close>, which is \<open>None\<close> (\<open>JNull\<close>) when the body is not JSON.
\<close>

record request =
  "method" :: string
  get_json :: json

datatype body = Text string | Json json

type_synonym response = "body \<times> nat \<times> (string \<times> string) list"

definition cors_headers :: "(string \<times> string) list" where
  "cors_headers = [(''Access-Control-Allow-Origin'', ''*'')]"

definition preflight_headers :: "(string \<times> string) list" where
  "preflight_headers =
     [(''Access-Control-Allow-Origin'', ''*''),
      (''Access-Control-Allow-Methods'', ''POST''),
      (''Access-Control-Allow-Headers'', ''Content-Type''),
      (''Access-Control-Max-Age'', ''3600'')]"

definition missing_features_response :: response where
  "missing_features_response =
     (Json (JObj [(''error'', JStr ''Missing features in request body''),
                  (''expected_format'',
                     JObj [(''features'',
                            JArr [JFloat 5.1, JFloat 3.5, JFloat 1.4, JFloat 0.2])])]),
      400, cors_headers)"

definition wrong_length_response :: "int \<Rightarrow> response" where
  "wrong_length_response n =
     (Json (JObj [(''error'', JStr ''Features must contain exactly 4 values''),
                  (''received'', JInt n)]),
      400, cors_headers)"

definition prediction_body :: "int \<Rightarrow> string \<Rightarrow> real list \<Rightarrow> json" where
  "prediction_body p c ps =
     JObj [(''prediction'', JInt p),
           (''class_name'', JStr c),
           (''probabilities'', JArr (map JFloat ps))]"

definition error_response :: "py_exn \<Rightarrow> response" where
  "error_response e =
     (Json (JObj [(''error'', JStr (exn_msg e)), (''type'', JStr (exn_type e))]),
      500, cors_headers)"

text \<open>
  Lines 65 to 80 of \<open>predict\<close>: the two calls of the classifier, the lookup of the class
  name and the 200 response.  Returns the response or the exception raised, and the trace.
\<close>

definition run_inference :: "classifier \<Rightarrow> json \<Rightarrow> (py_exn + response) \<times> event list" where
  "run_inference clf features =
     (case clf_predict clf features of
        Inl e \<Rightarrow> (Inl e, [Clf_predict features])
      | Inr prediction \<Rightarrow>
          (case clf_predict_proba clf features of
             Inl e \<Rightarrow> (Inl e, [Clf_predict features, Clf_predict_proba features])
           | Inr probabilities \<Rightarrow>
               (case py_index class_names prediction of
                  Inl e \<Rightarrow> (Inl e, [Clf_predict features, Clf_predict_proba features])
                | Inr class_name \<Rightarrow>
                    (Inr (Json (prediction_body prediction class_name probabilities),
                          200, cors_headers),
                     [Clf_predict features, Clf_predict_proba features]))))"

text \<open>
  Lines 62 to 80: what the \<open>try\<close> statement does once the features have passed
  validation.  \<open>load_model\<close> is called, and the classifier it returns is run.
\<close>

definition load_and_infer ::
  "(py_exn + classifier) \<Rightarrow> globals \<Rightarrow> json \<Rightarrow> (py_exn + response) \<times> globals \<times> event list" where
  "load_and_infer artifact g features =
     (case load_model artifact g of
        (Inl e, g', t) \<Rightarrow> (Inl e, g', Call_load_model # t)
      | (Inr clf, g', t) \<Rightarrow>
          (case run_inference clf features of
             (r, t') \<Rightarrow> (r, g', Call_load_model # t @ t')))"

text \<open>
  The body of the \<open>try\<close> statement (lines 44 to 80): validation, then the lines above.
  An exception raised anywhere in it is the \<open>Inl\<close> result.
\<close>

definition try_block ::
  "(py_exn + classifier) \<Rightarrow> globals \<Rightarrow> request \<Rightarrow> (py_exn + response) \<times> globals \<times> event list" where
  "try_block artifact g rq =
     (let request_json = get_json rq in
      if \<not> truthy request_json then (Inr missing_features_response, g, [])
      else
        (case py_contains request_json ''features'' of
           Inl e \<Rightarrow> (Inl e, g, [])
         | Inr False \<Rightarrow> (Inr missing_features_response, g, [])
         | Inr True \<Rightarrow>
             (case py_getitem request_json ''features'' of
                Inl e \<Rightarrow> (Inl e, g, [])
              | Inr features \<Rightarrow>
                  (case py_len features of
                     Inl e \<Rightarrow> (Inl e, g, [])
                   | Inr n \<Rightarrow>
                       if n \<noteq> 4 then (Inr (wrong_length_response n), g, [])
                       else load_and_infer artifact g features))))"

text \<open>
  The handler \<open>predict\<close> of main.py: the preflight branch, then the \<open>try\<close> statement with
  its \<open>except Exception\<close> clause.
\<close>

definition main_predict ::
  "(py_exn + classifier) \<Rightarrow> globals \<Rightarrow> request \<Rightarrow> response \<times> globals \<times> event list" where
  "main_predict artifact g rq =
     (if method rq = ''OPTIONS'' then ((Text '''', 204, preflight_headers), g, [])
      else
        (case try_block artifact g rq of
           (Inl e, g', t) \<Rightarrow> (error_response e, g', t)
         | (Inr r, g', t) \<Rightarrow> (r, g', t)))"

definition status :: "response \<Rightarrow> nat" where
  "status r = fst (snd r)"

text \<open>The value stored under a key of a JSON response body, if there is one.\<close>

definition field :: "string \<Rightarrow> response \<Rightarrow> json option" where
  "field k r = (case fst r of Json (JObj kvs) \<Rightarrow> map_of kvs k | _ \<Rightarrow> None)"

section \<open>The framework deployment: app.py\<close>

record PredictionRequest =
  features :: "real list"

record PredictionResponse =
  prediction :: int
  class_name :: string
  probabilities :: "real list"

text \<open>
  The module loads the model when it is imported: \<open>model = joblib.load(MODEL_PATH)\<close>.
  An exception there ends the import, and no request is ever served.
\<close>

definition app_startup :: "(py_exn + classifier) \<Rightarrow> (py_exn + classifier) \<times> event list" where
  "app_startup artifact = (artifact, [Joblib_load])"

text \<open>
  The route function \<open>predict\<close> of app.py, for the model loaded at startup.  It has no
  \<open>try\<close> statement: an exception leaves the function.  It assigns no global.
\<close>

definition app_predict ::
  "classifier \<Rightarrow> PredictionRequest \<Rightarrow> (py_exn + PredictionResponse) \<times> event list" where
  "app_predict mdl rq =
     (let feats = JArr (map JFloat (features rq)) in
      case clf_predict mdl feats of
        Inl e \<Rightarrow> (Inl e, [Clf_predict feats])
      | Inr p \<Rightarrow>
          (case clf_predict_proba mdl feats of
             Inl e \<Rightarrow> (Inl e, [Clf_predict feats, Clf_predict_proba feats])
           | Inr ps \<Rightarrow>
               (case py_index class_names p of
                  Inl e \<Rightarrow> (Inl e, [Clf_predict feats, Clf_predict_proba feats])
                | Inr c \<Rightarrow>
                    (Inr \<lparr>prediction = p, class_name = c, probabilities = ps\<rparr>,
                     [Clf_predict feats, Clf_predict_proba feats]))))"

text \<open>
  Around the route function stands the framework.  The schema \<open>PredictionRequest\<close> declares
  one required field, \<open>features: List[float]\<close>, with no bound on its length; the validator
  of one element is the parameter \<open>as_float\<close> (the library decides which non-numbers it
  converts).  A body that does not fit the schema never reaches \<open>predict\<close>.
\<close>

definition PredictionRequest_validate ::
  "(json \<Rightarrow> real option) \<Rightarrow> json \<Rightarrow> PredictionRequest option" where
  "PredictionRequest_validate as_float b =
     (case b of
        JObj kvs \<Rightarrow>
          (case map_of kvs ''features'' of
             Some (JArr xs) \<Rightarrow>
               (if list_all (\<lambda>x. as_float x \<noteq> None) xs
                then Some \<lparr>features = map (\<lambda>x. the (as_float x)) xs\<rparr>
                else None)
           | _ \<Rightarrow> None)
      | _ \<Rightarrow> None)"

text \<open>
  The three ways a POST to \<open>/predict\<close> ends in the framework deployment, with the status
  the framework gives each by default: a body rejected by the schema (422), a value returned
  by \<open>predict\<close> (200), an exception that left \<open>predict\<close> (500).
\<close>

datatype app_outcome =
    Unprocessable
  | Returned PredictionResponse
  | Unhandled py_exn

fun app_status :: "app_outcome \<Rightarrow> nat" where
  "app_status Unprocessable = 422"
| "app_status (Returned _) = 200"
| "app_status (Unhandled _) = 500"

definition app_post_predict ::
  "(json \<Rightarrow> real option) \<Rightarrow> classifier \<Rightarrow> json \<Rightarrow> app_outcome \<times> event list" where
  "app_post_predict as_float mdl b =
     (case PredictionRequest_validate as_float b of
        None \<Rightarrow> (Unprocessable, [])
      | Some rq \<Rightarrow>
          (case app_predict mdl rq of
             (Inl e, t) \<Rightarrow> (Unhandled e, t)
           | (Inr r, t) \<Rightarrow> (Returned r, t)))"

text \<open>A JSON number as a float: the part of the element validator that is beyond doubt.\<close>

fun json_number :: "json \<Rightarrow> real option" where
  "json_number (JInt i) = Some (of_int i)"
| "json_number (JFloat r) = Some r"
| "json_number _ = None"

section \<open>Sample classifiers and requests\<close>

text \<open>
  The artifact \<open>model.pkl\<close> is not part of the repository.  Two stand-ins are used where a
  concrete classifier is needed: one that, like an estimator fitted on four features, raises
  \<open>ValueError\<close> on anything but four numbers, and one that answers every input alike.
\<close>

fun numeric :: "json \<Rightarrow> bool" where
  "numeric (JInt _) = True"
| "numeric (JFloat _) = True"
| "numeric _ = False"

fun four_numbers :: "json \<Rightarrow> bool" where
  "four_numbers (JArr xs) = (length xs = 4 \<and> list_all numeric xs)"
| "four_numbers _ = False"

definition four_feature_clf :: classifier where
  "four_feature_clf =
     \<lparr>clf_predict =
        (\<lambda>x. if four_numbers x then Inr 0
             else Inl (Exn ''ValueError'' ''X does not have 4 numeric features'')),
      clf_predict_proba =
        (\<lambda>x. if four_numbers x then Inr [0.9, 0.1, 0]
             else Inl (Exn ''ValueError'' ''X does not have 4 numeric features''))\<rparr>"

definition constant_clf :: "int \<Rightarrow> real list \<Rightarrow> classifier" where
  "constant_clf p ps = \<lparr>clf_predict = (\<lambda>x. Inr p), clf_predict_proba = (\<lambda>x. Inr ps)\<rparr>"

definition unloaded :: globals where
  "unloaded = \<lparr>model = None\<rparr>"

definition post :: "json \<Rightarrow> request" where
  "post b = \<lparr>method = ''POST'', get_json = b\<rparr>"

definition file_not_found :: py_exn where
  "file_not_found = Exn ''FileNotFoundError'' ''[Errno 2] No such file or directory''"

text \<open>
  What the specification asks of a prediction: a class index among 0, 1, 2 and three
  probabilities whose sum is 1 up to \<open>10\<^sup>-\<^sup>6\<close>.
\<close>

definition result_ok :: "int \<Rightarrow> real list \<Rightarrow> bool" where
  "result_ok p ps = (p \<in> {0, 1, 2} \<and> length ps = 3 \<and> \<bar>sum_list ps - 1\<bar> \<le> 1 / 10 ^ 6)"

section \<open>Auxiliary facts\<close>

lemma status_simps:
  "status missing_features_response = 400"
  "status (wrong_length_response n) = 400"
  "status (error_response e) = 500"
  by (simp_all add: status_def missing_features_response_def wrong_length_response_def
      error_response_def)

text \<open>The lookup in the table of class names, index by index.\<close>

lemma py_index_class_names:
  "py_index class_names p =
     (if p = 0 \<or> p = - 3 then Inr ''setosa''
      else if p = 1 \<or> p = - 2 then Inr ''versicolor''
      else if p = 2 \<or> p = - 1 then Inr ''virginica''
      else Inl (Exn ''IndexError'' ''list index out of range''))"
  by (auto simp: py_index_def class_names_def nat_add_distrib)

lemma run_inference_status:
  "run_inference clf v = (Inr r, t) \<Longrightarrow> status r = 200"
  by (auto simp: run_inference_def status_def split: sum.splits)

text \<open>
  The request alone decides how the \<open>try\<close> statement goes: the answer that the features
  are missing, an exception raised by validation, the answer that the length is wrong, or
  the run of lines 62 to 80 on a value of length 4.  In the first three nothing else has
  happened.
\<close>

lemma try_block_cases:
  obtains
    (missing) "\<And>artifact g. try_block artifact g rq = (Inr missing_features_response, g, [])"
  | (raised) e where "\<And>artifact g. try_block artifact g rq = (Inl e, g, [])"
  | (wrong_length) n where "n \<noteq> 4"
      and "\<And>artifact g. try_block artifact g rq = (Inr (wrong_length_response n), g, [])"
  | (passed) v where "py_getitem (get_json rq) ''features'' = Inr v" and "py_len v = Inr 4"
      and "\<And>artifact g. try_block artifact g rq = load_and_infer artifact g v"
proof (cases "truthy (get_json rq)")
  case False
  then show ?thesis using missing by (simp add: try_block_def)
next
  case tr: True
  show ?thesis
  proof (cases "py_contains (get_json rq) ''features''")
    case (Inl e)
    with tr show ?thesis using raised by (simp add: try_block_def)
  next
    case (Inr b)
    show ?thesis
    proof (cases b)
      case False
      with tr Inr show ?thesis using missing by (simp add: try_block_def)
    next
      case True
      with Inr have co: "py_contains (get_json rq) ''features'' = Inr True" by simp
      show ?thesis
      proof (cases "py_getitem (get_json rq) ''features''")
        case (Inl e)
        with tr co show ?thesis using raised by (simp add: try_block_def)
      next
        case gi: (Inr v)
        show ?thesis
        proof (cases "py_len v")
          case (Inl e)
          with tr co gi show ?thesis using raised by (simp add: try_block_def)
        next
          case (Inr n)
          with tr co gi show ?thesis using wrong_length [of n] passed [of v]
            by (cases "n = 4") (simp_all add: try_block_def)
        qed
      qed
    qed
  qed
qed


lemma load_and_infer_status:
  "load_and_infer artifact g v = (Inr r, g', t) \<Longrightarrow> status r = 200"
  by (auto simp: load_and_infer_def run_inference_status split: prod.splits sum.splits)

text \<open>A request whose body is a dict with a value of length 4 under the key passes validation.\<close>

lemma try_block_passed:
  assumes "get_json rq = JObj kvs" and "map_of kvs ''features'' = Some v" and "py_len v = Inr 4"
  shows "try_block artifact g rq = load_and_infer artifact g v"
proof -
  from assms(2) have "kvs \<noteq> []" by auto
  with assms show ?thesis by (simp add: try_block_def)
qed

text \<open>What the handler returns, read off the \<open>try\<close> statement.\<close>

lemma main_predict_response:
  "fst (main_predict artifact g rq) =
     (if method rq = ''OPTIONS'' then (Text '''', 204, preflight_headers)
      else (case fst (try_block artifact g rq) of Inl e \<Rightarrow> error_response e | Inr r \<Rightarrow> r))"
  by (simp add: main_predict_def split: prod.splits sum.splits)

lemma main_predict_globals:
  "fst (snd (main_predict artifact g rq)) =
     (if method rq = ''OPTIONS'' then g else fst (snd (try_block artifact g rq)))"
  by (simp add: main_predict_def split: prod.splits sum.splits)

lemma main_predict_trace:
  "snd (snd (main_predict artifact g rq)) =
     (if method rq = ''OPTIONS'' then [] else snd (snd (try_block artifact g rq)))"
  by (simp add: main_predict_def split: prod.splits sum.splits)

lemma main_predict_passed:
  assumes "method rq \<noteq> ''OPTIONS''"
    and "get_json rq = JObj kvs"
    and "map_of kvs ''features'' = Some v"
    and "py_len v = Inr 4"
    and "fst (load_model artifact g) = Inr clf"
  shows "fst (main_predict artifact g rq) =
     (case fst (run_inference clf v) of Inl e \<Rightarrow> error_response e | Inr r \<Rightarrow> r)"
proof -
  have "try_block artifact g rq = load_and_infer artifact g v"
    using assms(2-4) by (rule try_block_passed)
  with assms(1,5) show ?thesis
    by (auto simp: main_predict_def load_and_infer_def split: prod.splits sum.splits)
qed

text \<open>The cache: a loaded model is returned as it is, and a call that returns has cached.\<close>

lemma load_model_cached:
  "model g = Some c \<Longrightarrow> load_model artifact g = (Inr c, g, [])"
  by (simp add: load_model_def)

lemma load_model_returns:
  "load_model artifact g = (Inr c, g', t) \<Longrightarrow> model g' = Some c"
  by (auto simp: load_model_def split: option.splits sum.splits)

lemma load_and_infer_loaded:
  "model g = Some c \<Longrightarrow>
     load_and_infer artifact g v =
       (fst (run_inference c v), g, Call_load_model # snd (run_inference c v))"
  by (simp add: load_and_infer_def load_model_cached split: prod.splits)

lemma load_and_infer_globals:
  "fst (snd (load_and_infer artifact g v)) = g
   \<or> (model g = None
      \<and> (\<exists>c. artifact = Inr c \<and> fst (snd (load_and_infer artifact g v)) = g\<lparr>model := Some c\<rparr>))"
  by (cases "model g"; cases artifact)
     (simp_all add: load_and_infer_def load_model_def split: prod.splits)

lemma load_and_infer_again:
  "fst (load_and_infer artifact (fst (snd (load_and_infer artifact g v))) v)
     = fst (load_and_infer artifact g v)"
proof (cases "model g")
  case (Some c)
  then show ?thesis by (simp add: load_and_infer_loaded)
next
  case None
  show ?thesis
  proof (cases artifact)
    case (Inl e)
    with None show ?thesis by (simp add: load_and_infer_def load_model_def)
  next
    case (Inr c)
    with None have first: "load_and_infer artifact g v
        = (fst (run_inference c v), g\<lparr>model := Some c\<rparr>,
           Call_load_model # Joblib_load # snd (run_inference c v))"
      by (simp add: load_and_infer_def load_model_def split: prod.splits)
    have "model (g\<lparr>model := Some c\<rparr>) = Some c" by simp
    from load_and_infer_loaded [OF this] first show ?thesis by simp
  qed
qed



lemma field_prediction_body:
  "field ''prediction'' (Json (prediction_body p c ps), s, h) = Some (JInt p)"
  "field ''class_name'' (Json (prediction_body p c ps), s, h) = Some (JStr c)"
  "field ''probabilities'' (Json (prediction_body p c ps), s, h) = Some (JArr (map JFloat ps))"
  by (simp_all add: field_def prediction_body_def)


lemma py_index_in_range:
  "p \<in> {0, 1, 2} \<Longrightarrow> py_index class_names p = Inr (class_names ! nat p)"
  by (auto simp: py_index_def class_names_def)

lemma py_index_out_of_range:
  "\<not> (- 3 \<le> p \<and> p \<le> 2) \<Longrightarrow>
     py_index class_names p = Inl (Exn ''IndexError'' ''list index out of range'')"
  by (auto simp: py_index_def class_names_def)

lemma py_index_defined:
  "(\<exists>c. py_index class_names p = Inr c) \<longleftrightarrow> - 3 \<le> p \<and> p \<le> 2"
  by (auto simp: py_index_def class_names_def)

text \<open>Once the cache is filled, no request deserializes the model.\<close>

lemma run_inference_no_load:
  "Joblib_load \<notin> set (snd (run_inference c v))"
  by (simp add: run_inference_def split: sum.splits)

lemma main_predict_loaded_no_load:
  assumes "model g = Some c"
  shows "Joblib_load \<notin> set (snd (snd (main_predict artifact g rq)))"
proof (cases rule: try_block_cases [of rq])
  case missing
  then show ?thesis by (simp add: main_predict_trace)
next
  case (raised e)
  then show ?thesis by (simp add: main_predict_trace)
next
  case (wrong_length n)
  then show ?thesis by (simp add: main_predict_trace)
next
  case (passed v)
  with assms show ?thesis
    by (simp add: main_predict_trace load_and_infer_loaded run_inference_no_load)
qed


section \<open>Validation of the request\<close>




text \<open>
  C3, as amended.  In the serverless deployment a request whose body is a dict without the
  key \<open>features\<close> is answered with status 400 and the error message "Missing features in
  request body", and nothing else happens.  In the framework deployment such a body does
  not fit the schema: \<open>predict\<close> is not called, and the answer is the one the framework
  gives to a body it cannot process.
\<close>

theorem missing_features_rejected:
  assumes "method rq \<noteq> ''OPTIONS''"
    and "get_json rq = JObj kvs"
    and "map_of kvs ''features'' = None"
  shows "main_predict artifact g rq = (missing_features_response, g, [])
    \<and> status missing_features_response = 400
    \<and> field ''error'' missing_features_response
        = Some (JStr ''Missing features in request body'')
    \<and> app_post_predict as_float mdl (JObj kvs) = (Unprocessable, [])"
proof -
  from assms(2,3) have "try_block artifact g rq = (Inr missing_features_response, g, [])"
    by (simp add: try_block_def Let_def)
  with assms(1) have "main_predict artifact g rq = (missing_features_response, g, [])"
    by (simp add: main_predict_def)
  moreover have "field ''error'' missing_features_response
      = Some (JStr ''Missing features in request body'')"
    by (simp add: field_def missing_features_response_def)
  moreover from assms(3) have "app_post_predict as_float mdl (JObj kvs) = (Unprocessable, [])"
    by (simp add: app_post_predict_def PredictionRequest_validate_def)
  ultimately show ?thesis by (simp add: status_simps)
qed

theorem missing_features_rejected_witness:
  "method (post (JObj [(''data'', JArr [])])) \<noteq> ''OPTIONS''
   \<and> get_json (post (JObj [(''data'', JArr [])])) = JObj [(''data'', JArr [])]
   \<and> map_of [(''data'', JArr [])] ''features'' = None
   \<and> main_predict (Inr four_feature_clf) unloaded (post (JObj [(''data'', JArr [])]))
       = (missing_features_response, unloaded, [])
   \<and> status missing_features_response = 400"
proof -
  let ?b = "[(''data'', JArr [])]"
  have h1: "method (post (JObj ?b)) \<noteq> ''OPTIONS''" by (simp add: post_def)
  have h2: "get_json (post (JObj ?b)) = JObj ?b" by (simp add: post_def)
  have h3: "map_of ?b ''features'' = None" by simp
  from missing_features_rejected [OF h1 h2 h3, of "Inr four_feature_clf" unloaded] h1 h2
  show ?thesis by simp
qed

text \<open>
  C3 as stated fails for the framework deployment: the body \<open>{}\<close> is rejected by the
  schema with the framework's status 422, not with a 400 and the message of main.py.
\<close>

theorem framework_missing_features_unprocessable:
  "app_post_predict json_number four_feature_clf (JObj []) = (Unprocessable, [])
   \<and> app_status Unprocessable = 422"
  by (simp add: app_post_predict_def PredictionRequest_validate_def)



text \<open>
  C9.  In the serverless deployment a request answered with status 400 has called nothing,
  \<open>load_model\<close> included, and the globals, that is the model cache, are as they were
  before the request.
\<close>

theorem validation_error_keeps_cache:
  assumes "status (fst (main_predict artifact g rq)) = 400"
  shows "snd (main_predict artifact g rq) = (g, [])"
proof (cases "method rq = ''OPTIONS''")
  case True
  with assms show ?thesis by (simp add: main_predict_def status_def)
next
  case post: False
  show ?thesis
  proof (cases rule: try_block_cases [of rq])
    case missing
    with post show ?thesis by (simp add: main_predict_def)
  next
    case (raised e)
    with post show ?thesis by (simp add: main_predict_def)
  next
    case (wrong_length n)
    with post show ?thesis by (simp add: main_predict_def)
  next
    case (passed v)
    obtain r g' t where l: "load_and_infer artifact g v = (r, g', t)"
      by (cases "load_and_infer artifact g v") auto
    show ?thesis
    proof (cases r)
      case (Inl e)
      with post passed l assms show ?thesis by (simp add: main_predict_def status_simps)
    next
      case (Inr x)
      with l have "status x = 200" by (simp add: load_and_infer_status)
      with post passed l Inr assms show ?thesis by (simp add: main_predict_def)
    qed
  qed
qed

theorem validation_error_keeps_cache_witness:
  "status (fst (main_predict (Inr four_feature_clf) unloaded
       (post (JObj [(''features'', JArr [JInt 1, JInt 2, JInt 3, JInt 4, JInt 5])])))) = 400
   \<and> snd (main_predict (Inr four_feature_clf) unloaded
       (post (JObj [(''features'', JArr [JInt 1, JInt 2, JInt 3, JInt 4, JInt 5])])))
       = (unloaded, [])"
proof -
  have h: "status (fst (main_predict (Inr four_feature_clf) unloaded
       (post (JObj [(''features'', JArr [JInt 1, JInt 2, JInt 3, JInt 4, JInt 5])])))) = 400"
    by (simp add: main_predict_def try_block_def post_def status_simps)
  from h validation_error_keeps_cache [OF h] show ?thesis by simp
qed

section \<open>The prediction\<close>

text \<open>
  C2.  For a request with four numeric features, if the loaded classifier returns on them
  a class index among 0, 1, 2 and three probabilities that sum to 1 up to \<open>10\<^sup>-\<^sup>6\<close>,
  then \<open>predict\<close> answers with a result that has this class index and these probabilities:
  the 200 response of the serverless deployment, the returned value of the framework
  deployment.  The bounds are hypotheses on the classifier: the code passes its outputs on.
\<close>

theorem valid_input_result:
  assumes "method rq \<noteq> ''OPTIONS''"
    and "get_json rq = JObj kvs"
    and "map_of kvs ''features'' = Some (JArr xs)"
    and "length xs = 4"
    and "list_all numeric xs"
    and "fst (load_model artifact g) = Inr clf"
    and "clf_predict clf (JArr xs) = Inr p"
    and "clf_predict_proba clf (JArr xs) = Inr ps"
    and "result_ok p ps"
    and "length fs = 4"
    and "clf_predict clf (JArr (map JFloat fs)) = Inr p'"
    and "clf_predict_proba clf (JArr (map JFloat fs)) = Inr ps'"
    and "result_ok p' ps'"
  shows "status (fst (main_predict artifact g rq)) = 200
    \<and> (\<exists>q qs. field ''prediction'' (fst (main_predict artifact g rq)) = Some (JInt q)
          \<and> field ''probabilities'' (fst (main_predict artifact g rq))
              = Some (JArr (map JFloat qs))
          \<and> result_ok q qs)
    \<and> (\<exists>r. fst (app_predict clf \<lparr>features = fs\<rparr>) = Inr r
          \<and> result_ok (prediction r) (probabilities r))"
proof -
  from assms(9) have "p \<in> {0, 1, 2}" by (simp add: result_ok_def)
  then have ix: "py_index class_names p = Inr (class_names ! nat p)"
    by (rule py_index_in_range)
  from assms(4) have "py_len (JArr xs) = Inr 4" by simp
  with assms(1-3,6) have "fst (main_predict artifact g rq) =
     (case fst (run_inference clf (JArr xs)) of Inl e \<Rightarrow> error_response e | Inr r \<Rightarrow> r)"
    by (simp add: main_predict_passed)
  with assms(7,8) ix have m: "fst (main_predict artifact g rq)
      = (Json (prediction_body p (class_names ! nat p) ps), 200, cors_headers)"
    by (simp add: run_inference_def)
  from assms(13) have "p' \<in> {0, 1, 2}" by (simp add: result_ok_def)
  then have "py_index class_names p' = Inr (class_names ! nat p')"
    by (rule py_index_in_range)
  with assms(11,12) have a: "fst (app_predict clf \<lparr>features = fs\<rparr>)
      = Inr \<lparr>prediction = p', class_name = class_names ! nat p', probabilities = ps'\<rparr>"
    by (simp add: app_predict_def Let_def)
  from m have "status (fst (main_predict artifact g rq)) = 200"
    by (simp add: status_def)
  moreover from m assms(9)
  have "\<exists>q qs. field ''prediction'' (fst (main_predict artifact g rq)) = Some (JInt q)
          \<and> field ''probabilities'' (fst (main_predict artifact g rq))
              = Some (JArr (map JFloat qs))
          \<and> result_ok q qs"
    by (auto simp: field_prediction_body)
  moreover from a assms(13)
  have "\<exists>r. fst (app_predict clf \<lparr>features = fs\<rparr>) = Inr r
          \<and> result_ok (prediction r) (probabilities r)"
    by simp
  ultimately show ?thesis by blast
qed

theorem valid_input_result_witness:
  "load_model (Inr four_feature_clf) unloaded
     = (Inr four_feature_clf, \<lparr>model = Some four_feature_clf\<rparr>, [Joblib_load])
   \<and> clf_predict four_feature_clf (JArr [JFloat 5.1, JFloat 3.5, JFloat 1.4, JFloat 0.2]) = Inr 0
   \<and> clf_predict_proba four_feature_clf (JArr [JFloat 5.1, JFloat 3.5, JFloat 1.4, JFloat 0.2])
       = Inr [0.9, 0.1, 0]
   \<and> result_ok 0 [0.9, 0.1, 0]
   \<and> status (fst (main_predict (Inr four_feature_clf) unloaded
        (post (JObj [(''features'', JArr [JFloat 5.1, JFloat 3.5, JFloat 1.4, JFloat 0.2])]))))
       = 200
   \<and> (\<exists>r. fst (app_predict four_feature_clf \<lparr>features = [5.1, 3.5, 1.4, 0.2]\<rparr>) = Inr r
          \<and> result_ok (prediction r) (probabilities r))"
proof -
  let ?xs = "[JFloat 5.1, JFloat 3.5, JFloat 1.4, JFloat 0.2]"
  let ?rq = "post (JObj [(''features'', JArr ?xs)])"
  have h1: "method ?rq \<noteq> ''OPTIONS''" by (simp add: post_def)
  have h2: "get_json ?rq = JObj [(''features'', JArr ?xs)]" by (simp add: post_def)
  have h3: "map_of [(''features'', JArr ?xs)] ''features'' = Some (JArr ?xs)" by simp
  have h4: "length ?xs = 4" by simp
  have h5: "list_all numeric ?xs" by simp
  have l: "load_model (Inr four_feature_clf) unloaded
     = (Inr four_feature_clf, \<lparr>model = Some four_feature_clf\<rparr>, [Joblib_load])"
    by (simp add: load_model_def unloaded_def)
  then have h6: "fst (load_model (Inr four_feature_clf) unloaded) = Inr four_feature_clf"
    by simp
  have h7: "clf_predict four_feature_clf (JArr ?xs) = Inr 0"
    by (simp add: four_feature_clf_def)
  have h8: "clf_predict_proba four_feature_clf (JArr ?xs) = Inr [0.9, 0.1, 0]"
    by (simp add: four_feature_clf_def)
  have h9: "result_ok 0 [0.9, 0.1, 0]" by (simp add: result_ok_def)
  have h10: "length [5.1, 3.5, 1.4, 0.2 :: real] = 4" by simp
  have h11: "clf_predict four_feature_clf (JArr (map JFloat [5.1, 3.5, 1.4, 0.2])) = Inr 0"
    by (simp add: four_feature_clf_def)
  have h12: "clf_predict_proba four_feature_clf (JArr (map JFloat [5.1, 3.5, 1.4, 0.2]))
      = Inr [0.9, 0.1, 0]"
    by (simp add: four_feature_clf_def)
  from valid_input_result [OF h1 h2 h3 h4 h5 h6 h7 h8 h9 h10 h11 h12 h9] l h7 h8 h9
  show ?thesis by blast
qed



text \<open>
  C10, as amended.  The lookup \<open>class_names[prediction]\<close> is in bounds exactly when the
  predicted index lies in \<open>-3 .. 2\<close>, an index below zero counting from the end of the
  table.  For an index among 0, 1, 2 it returns that entry and does not raise.  For an index
  outside \<open>-3 .. 2\<close> it raises \<open>IndexError\<close>, which the serverless deployment answers with
  a 500 response and which leaves \<open>predict\<close> of the framework deployment unhandled.
\<close>

theorem class_name_lookup_bounds:
  "((\<exists>c. py_index class_names p = Inr c) \<longleftrightarrow> - 3 \<le> p \<and> p \<le> 2)
   \<and> (p \<in> {0, 1, 2} \<longrightarrow> py_index class_names p = Inr (class_names ! nat p))
   \<and> (\<not> (- 3 \<le> p \<and> p \<le> 2)
        \<and> method rq \<noteq> ''OPTIONS'' \<and> get_json rq = JObj kvs
        \<and> map_of kvs ''features'' = Some v \<and> py_len v = Inr 4
        \<and> fst (load_model artifact g) = Inr clf
        \<and> clf_predict clf v = Inr p \<and> clf_predict_proba clf v = Inr ps
      \<longrightarrow> fst (main_predict artifact g rq)
            = error_response (Exn ''IndexError'' ''list index out of range''))
   \<and> (\<not> (- 3 \<le> p \<and> p \<le> 2)
        \<and> clf_predict mdl (JArr (map JFloat (features prq))) = Inr p
        \<and> clf_predict_proba mdl (JArr (map JFloat (features prq))) = Inr ps'
      \<longrightarrow> fst (app_predict mdl prq) = Inl (Exn ''IndexError'' ''list index out of range''))"
proof -
  have "fst (main_predict artifact g rq)
            = error_response (Exn ''IndexError'' ''list index out of range'')"
    if out: "\<not> (- 3 \<le> p \<and> p \<le> 2)"
      and h: "method rq \<noteq> ''OPTIONS''" "get_json rq = JObj kvs"
        "map_of kvs ''features'' = Some v" "py_len v = Inr 4"
        "fst (load_model artifact g) = Inr clf"
      and c: "clf_predict clf v = Inr p" "clf_predict_proba clf v = Inr ps"
  proof -
    from h have "fst (main_predict artifact g rq) =
       (case fst (run_inference clf v) of Inl e \<Rightarrow> error_response e | Inr r \<Rightarrow> r)"
      by (rule main_predict_passed)
    with c py_index_out_of_range [OF out] show ?thesis by (simp add: run_inference_def)
  qed
  moreover have "fst (app_predict mdl prq) = Inl (Exn ''IndexError'' ''list index out of range'')"
    if out: "\<not> (- 3 \<le> p \<and> p \<le> 2)"
      and c: "clf_predict mdl (JArr (map JFloat (features prq))) = Inr p"
        "clf_predict_proba mdl (JArr (map JFloat (features prq))) = Inr ps'"
    using c py_index_out_of_range [OF out] by (simp add: app_predict_def Let_def)
  ultimately show ?thesis using py_index_defined [of p] py_index_in_range [of p] by blast
qed

theorem class_name_lookup_bounds_witness:
  "(1 :: int) \<in> {0, 1, 2}
   \<and> py_index class_names 1 = Inr ''versicolor''
   \<and> \<not> (- 3 \<le> (7 :: int) \<and> (7 :: int) \<le> 2)
   \<and> fst (main_predict (Inr (constant_clf 7 [0.1, 0.2, 0.7])) unloaded
         (post (JObj [(''features'', JArr [JFloat 5.1, JFloat 3.5, JFloat 1.4, JFloat 0.2])])))
       = (Json (JObj [(''error'', JStr ''list index out of range''),
                      (''type'', JStr ''IndexError'')]), 500, cors_headers)
   \<and> fst (app_predict (constant_clf 7 [0.1, 0.2, 0.7]) \<lparr>features = [5.1, 3.5, 1.4, 0.2]\<rparr>)
       = Inl (Exn ''IndexError'' ''list index out of range'')"
proof -
  let ?xs = "[JFloat 5.1, JFloat 3.5, JFloat 1.4, JFloat 0.2]"
  let ?rq = "post (JObj [(''features'', JArr ?xs)])"
  let ?c = "constant_clf 7 [0.1, 0.2, 0.7]"
  have in_range: "(1 :: int) \<in> {0, 1, 2}" by simp
  have out: "\<not> (- 3 \<le> (7 :: int) \<and> (7 :: int) \<le> 2)" by simp
  have h: "method ?rq \<noteq> ''OPTIONS''" "get_json ?rq = JObj [(''features'', JArr ?xs)]"
    "map_of [(''features'', JArr ?xs)] ''features'' = Some (JArr ?xs)"
    "py_len (JArr ?xs) = Inr 4"
    by (simp_all add: post_def)
  have l: "fst (load_model (Inr ?c) unloaded) = Inr ?c"
    by (simp add: load_model_def unloaded_def)
  have c: "clf_predict ?c (JArr ?xs) = Inr 7" "clf_predict_proba ?c (JArr ?xs) = Inr [0.1, 0.2, 0.7]"
    "clf_predict ?c (JArr (map JFloat (features \<lparr>features = [5.1, 3.5, 1.4, 0.2]\<rparr>))) = Inr 7"
    "clf_predict_proba ?c (JArr (map JFloat (features \<lparr>features = [5.1, 3.5, 1.4, 0.2]\<rparr>)))
       = Inr [0.1, 0.2, 0.7]"
    by (simp_all add: constant_clf_def)
  from class_name_lookup_bounds [of 1] in_range
  have one: "py_index class_names 1 = Inr ''versicolor''"
    by (simp add: class_names_def)
  from class_name_lookup_bounds
    [of 7 ?rq "[(''features'', JArr ?xs)]" "JArr ?xs" "Inr ?c" unloaded ?c "[0.1, 0.2, 0.7]" ?c
      "\<lparr>features = [5.1, 3.5, 1.4, 0.2]\<rparr>" "[0.1, 0.2, 0.7]"] out h l c
  have seven: "fst (main_predict (Inr ?c) unloaded ?rq)
       = error_response (Exn ''IndexError'' ''list index out of range'')
     \<and> fst (app_predict ?c \<lparr>features = [5.1, 3.5, 1.4, 0.2]\<rparr>)
       = Inl (Exn ''IndexError'' ''list index out of range'')"
    by blast
  from in_range one out seven show ?thesis by (simp add: error_response_def)
qed

text \<open>
  C10 as stated fails: the index \<open>-1\<close> is not among 0, 1, 2, and the lookup is in bounds.
  A classifier that predicts \<open>-1\<close> gets the class name "virginica" from both deployments.
\<close>

theorem negative_index_in_bounds:
  "py_index class_names (- 1) = Inr ''virginica''
   \<and> (- 1 :: int) \<notin> {0, 1, 2}
   \<and> fst (app_predict (constant_clf (- 1) [0.1, 0.2, 0.7]) \<lparr>features = [5.1, 3.5, 1.4, 0.2]\<rparr>)
       = Inr \<lparr>prediction = - 1, class_name = ''virginica'', probabilities = [0.1, 0.2, 0.7]\<rparr>
   \<and> fst (main_predict (Inr (constant_clf (- 1) [0.1, 0.2, 0.7])) unloaded
         (post (JObj [(''features'', JArr [JFloat 5.1, JFloat 3.5, JFloat 1.4, JFloat 0.2])])))
       = (Json (prediction_body (- 1) ''virginica'' [0.1, 0.2, 0.7]), 200, cors_headers)"
  by (simp add: py_index_class_names app_predict_def constant_clf_def main_predict_def
      try_block_def load_and_infer_def load_model_def run_inference_def post_def unloaded_def
      Let_def)

section \<open>The model cache\<close>

text \<open>
  C4.  The model is loaded at most once.  In the serverless deployment a call of
  \<open>load_model\<close> that finds the cache filled returns the cached classifier, deserializes
  nothing and leaves the globals as they are; a call that returns a classifier has filled
  the cache, so every later call returns that classifier without deserializing again,
  whatever has become of the file, and no later request deserializes; and calling
  \<open>load_model\<close> twice gives the result and the globals of calling it once.  (A call that
  raises caches nothing.)  In the framework
  deployment the model is deserialized once, when the module is imported, and \<open>predict\<close>
  never does it.
\<close>

theorem load_model_at_most_once:
  "(model g = Some c \<longrightarrow>
      load_model artifact g = (Inr c, g, [])
      \<and> Joblib_load \<notin> set (snd (snd (main_predict artifact g rq))))
   \<and> (load_model artifact g = (Inr c, g', t) \<longrightarrow> load_model artifact' g' = (Inr c, g', []))
   \<and> fst (load_model artifact (fst (snd (load_model artifact g)))) = fst (load_model artifact g)
   \<and> fst (snd (load_model artifact (fst (snd (load_model artifact g)))))
       = fst (snd (load_model artifact g))
   \<and> snd (app_startup artifact) = [Joblib_load]
   \<and> Joblib_load \<notin> set (snd (app_predict mdl prq))"
proof -
  have "fst (load_model artifact (fst (snd (load_model artifact g)))) = fst (load_model artifact g)"
    by (simp add: load_model_def split: option.splits sum.splits)
  moreover have "fst (snd (load_model artifact (fst (snd (load_model artifact g)))))
       = fst (snd (load_model artifact g))"
    by (simp add: load_model_def split: option.splits sum.splits)
  moreover have "Joblib_load \<notin> set (snd (app_predict mdl prq))"
    by (simp add: app_predict_def Let_def split: sum.splits)
  moreover have "model g = Some c \<longrightarrow>
      load_model artifact g = (Inr c, g, [])
      \<and> Joblib_load \<notin> set (snd (snd (main_predict artifact g rq)))"
    by (simp add: load_model_cached main_predict_loaded_no_load)
  moreover have "load_model artifact g = (Inr c, g', t) \<longrightarrow>
      load_model artifact' g' = (Inr c, g', [])"
    using load_model_returns [of artifact g c g' t] load_model_cached [of g' c artifact']
    by blast
  moreover have "snd (app_startup artifact) = [Joblib_load]"
    by (simp add: app_startup_def)
  ultimately show ?thesis by blast
qed

theorem load_model_at_most_once_witness:
  "load_model (Inr four_feature_clf) unloaded
     = (Inr four_feature_clf, \<lparr>model = Some four_feature_clf\<rparr>, [Joblib_load])
   \<and> model \<lparr>model = Some four_feature_clf\<rparr> = Some four_feature_clf
   \<and> load_model (Inl file_not_found) \<lparr>model = Some four_feature_clf\<rparr>
     = (Inr four_feature_clf, \<lparr>model = Some four_feature_clf\<rparr>, [])
   \<and> load_model (Inr (constant_clf 2 [])) \<lparr>model = Some four_feature_clf\<rparr>
     = (Inr four_feature_clf, \<lparr>model = Some four_feature_clf\<rparr>, [])"
proof -
  let ?g = "\<lparr>model = Some four_feature_clf\<rparr>"
  have first: "load_model (Inr four_feature_clf) unloaded
     = (Inr four_feature_clf, ?g, [Joblib_load])"
    by (simp add: load_model_def unloaded_def)
  have cached: "model ?g = Some four_feature_clf" by simp
  from load_model_at_most_once
    [of unloaded four_feature_clf "Inr four_feature_clf" _ ?g "[Joblib_load]" "Inl file_not_found"]
    first
  have later: "load_model (Inl file_not_found) ?g = (Inr four_feature_clf, ?g, [])"
    by blast
  from load_model_at_most_once [of ?g four_feature_clf "Inr (constant_clf 2 [])"] cached
  have "load_model (Inr (constant_clf 2 [])) ?g = (Inr four_feature_clf, ?g, [])"
    by blast
  with first cached later show ?thesis by blast
qed

text \<open>
  C5.  \<open>predict\<close> is deterministic.  In the serverless deployment, once a model is
  loaded the answer, the globals and the trace of a request depend on the loaded model and
  the request only, not on the artifact, and the globals stay as they are; from any
  globals, running the same request again gives the same response; and the only change
  \<open>predict\<close> ever makes to the globals is to fill an empty cache with the classifier it
  has loaded.  In the framework deployment \<open>predict\<close> is a function of the model and the
  request, and the classifier is all it calls.
\<close>

theorem predict_deterministic:
  "(model g = Some c \<longrightarrow>
      main_predict artifact g rq = main_predict artifact' g rq
      \<and> fst (snd (main_predict artifact g rq)) = g)
   \<and> fst (main_predict artifact (fst (snd (main_predict artifact g rq))) rq)
       = fst (main_predict artifact g rq)
   \<and> (fst (snd (main_predict artifact g rq)) = g
      \<or> (model g = None
         \<and> (\<exists>c. artifact = Inr c
              \<and> fst (snd (main_predict artifact g rq)) = g\<lparr>model := Some c\<rparr>)))
   \<and> set (snd (app_predict mdl prq))
       \<subseteq> {Clf_predict (JArr (map JFloat (features prq))),
          Clf_predict_proba (JArr (map JFloat (features prq)))}"
proof -
  have d: "set (snd (app_predict mdl prq))
       \<subseteq> {Clf_predict (JArr (map JFloat (features prq))),
          Clf_predict_proba (JArr (map JFloat (features prq)))}"
    by (simp add: app_predict_def Let_def split: sum.splits)
  show ?thesis
  proof (cases rule: try_block_cases [of rq])
    case missing
    with d show ?thesis by (simp add: main_predict_def)
  next
    case (raised e)
    with d show ?thesis by (simp add: main_predict_def)
  next
    case (wrong_length n)
    with d show ?thesis by (simp add: main_predict_def)
  next
    case (passed v)
    have a: "model g = Some c \<longrightarrow>
        main_predict artifact g rq = main_predict artifact' g rq
        \<and> fst (snd (main_predict artifact g rq)) = g"
      by (simp add: main_predict_def passed(3) load_and_infer_loaded split: sum.splits)
    have b: "fst (main_predict artifact (fst (snd (main_predict artifact g rq))) rq)
         = fst (main_predict artifact g rq)"
      using load_and_infer_again [of artifact g v]
      by (simp add: main_predict_response main_predict_globals passed(3))
    have c: "fst (snd (main_predict artifact g rq)) = g
        \<or> (model g = None
           \<and> (\<exists>c. artifact = Inr c
                \<and> fst (snd (main_predict artifact g rq)) = g\<lparr>model := Some c\<rparr>))"
      using load_and_infer_globals [of artifact g v]
      by (simp add: main_predict_globals passed(3))
    from a b c d show ?thesis by blast
  qed
qed

theorem predict_deterministic_witness:
  "model \<lparr>model = Some four_feature_clf\<rparr> = Some four_feature_clf
   \<and> main_predict (Inl file_not_found) \<lparr>model = Some four_feature_clf\<rparr>
       (post (JObj [(''features'', JArr [JFloat 5.1, JFloat 3.5, JFloat 1.4, JFloat 0.2])]))
     = main_predict (Inr (constant_clf 2 [])) \<lparr>model = Some four_feature_clf\<rparr>
       (post (JObj [(''features'', JArr [JFloat 5.1, JFloat 3.5, JFloat 1.4, JFloat 0.2])]))
   \<and> fst (snd (main_predict (Inl file_not_found) \<lparr>model = Some four_feature_clf\<rparr>
       (post (JObj [(''features'', JArr [JFloat 5.1, JFloat 3.5, JFloat 1.4, JFloat 0.2])]))))
     = \<lparr>model = Some four_feature_clf\<rparr>"
proof -
  have h: "model \<lparr>model = Some four_feature_clf\<rparr> = Some four_feature_clf" by simp
  from predict_deterministic
    [of "\<lparr>model = Some four_feature_clf\<rparr>" four_feature_clf "Inl file_not_found"
      "post (JObj [(''features'', JArr [JFloat 5.1, JFloat 3.5, JFloat 1.4, JFloat 0.2])])"
      "Inr (constant_clf 2 [])"] h
  show ?thesis by blast
qed

section \<open>Exceptions\<close>

text \<open>
  C6.  In the serverless deployment, after the preflight branch, an exception raised
  anywhere in the \<open>try\<close> statement is answered with a 500 response whose body has the
  message of the exception under \<open>error\<close> and the name of its type under \<open>type\<close>.  The
  handler returns a response in every case: no exception leaves it.
\<close>

theorem exception_answered_500:
  assumes "method rq \<noteq> ''OPTIONS''"
    and "try_block artifact g rq = (Inl e, g', t)"
  shows "fst (main_predict artifact g rq) = error_response e
    \<and> status (error_response e) = 500
    \<and> field ''error'' (error_response e) = Some (JStr (exn_msg e))
    \<and> field ''type'' (error_response e) = Some (JStr (exn_type e))"
  using assms by (simp add: main_predict_def status_def field_def error_response_def)

theorem exception_answered_500_witness:
  "method (post (JObj [(''features'', JArr [JFloat 5.1, JFloat 3.5, JFloat 1.4, JFloat 0.2])]))
     \<noteq> ''OPTIONS''
   \<and> try_block (Inl file_not_found) unloaded
         (post (JObj [(''features'', JArr [JFloat 5.1, JFloat 3.5, JFloat 1.4, JFloat 0.2])]))
       = (Inl file_not_found, unloaded, [Call_load_model, Joblib_load])
   \<and> fst (main_predict (Inl file_not_found) unloaded
         (post (JObj [(''features'', JArr [JFloat 5.1, JFloat 3.5, JFloat 1.4, JFloat 0.2])])))
       = (Json (JObj [(''error'', JStr ''[Errno 2] No such file or directory''),
                      (''type'', JStr ''FileNotFoundError'')]), 500, cors_headers)"
proof -
  let ?rq = "post (JObj [(''features'', JArr [JFloat 5.1, JFloat 3.5, JFloat 1.4, JFloat 0.2])])"
  have h1: "method ?rq \<noteq> ''OPTIONS''" by (simp add: post_def)
  have h2: "try_block (Inl file_not_found) unloaded ?rq
      = (Inl file_not_found, unloaded, [Call_load_model, Joblib_load])"
    by (simp add: try_block_def post_def load_and_infer_def load_model_def unloaded_def)
  from exception_answered_500 [OF h1 h2] h1 h2 show ?thesis
    by (simp add: error_response_def file_not_found_def)
qed

end
